theory Spec2Isabelle
  imports Complex_Main
begin

section \<open>The store: tables of the SQLite schema\<close>

text \<open>
  The tables are the ones created by \<open>initDatabase\<close>. A table is the list of its rows in
  insertion order. Row ids and foreign keys are natural numbers, money is an exact
  rational, a point in time is the number of milliseconds since the epoch. A request has one
  clock value \<open>now\<close>, the instant that \<open>moment()\<close> and \<open>Date.now()\<close> read in that
  request; a stored time is the UTC time in milliseconds that the stored text denotes.
  The code computes money and hours in IEEE doubles; the model's values are the exact
  ones, which the doubles equal when the instants and the amounts are whole numbers
  below \<open>2 ^ 53\<close>. Columns that
  the handlers below only display (a slot's number, name, type and daily rate, the
  timestamps \<open>created_at\<close> and \<open>updated_at\<close>) and the table \<open>audit_logs\<close> are left out.
\<close>

datatype slot_status = vacant | occupied | reserved | out_of_service

datatype ticket_status = pending | paid | cancelled

datatype shift_status = open_shift | closed_shift

record parking_slot =
  ps_id :: nat
  ps_status :: slot_status
  ps_hourly_rate :: "rat option"

record vehicle =
  v_id :: nat
  v_license_plate :: string
  v_columns :: "string list"

record driver =
  d_id :: nat
  d_full_name :: string
  d_columns :: "string list"

record parking_ticket =
  pt_id :: nat
  pt_ticket_number :: int
  pt_slot_id :: nat
  pt_vehicle_id :: nat
  pt_driver_id :: nat
  pt_cashier_id :: nat
  pt_check_in_time :: int
  pt_check_out_time :: "int option"
  pt_duration_hours :: "rat option"
  pt_total_amount :: "rat option"
  pt_payment_status :: ticket_status

record payment =
  p_id :: nat
  p_ticket_id :: nat
  p_amount :: rat
  p_payment_method :: string
  p_reference_number :: string
  p_cashier_id :: nat
  p_payment_date :: int
  p_receipt_number :: int
  p_notes :: string

record shift =
  sh_id :: nat
  sh_cashier_id :: nat
  sh_shift_date :: int
  sh_open_time :: int
  sh_opening_amount :: rat
  sh_status :: shift_status
  sh_notes :: string

text \<open>
  \<open>foreign_keys\<close> is the connection's \<open>PRAGMA foreign_keys\<close>; the fields \<open>*_seq\<close> are the
  rows of \<open>sqlite_sequence\<close> that \<open>AUTOINCREMENT\<close> keeps. \<open>users\<close> holds the ids of the
  rows of table \<open>users\<close>. \<open>pt_ticket_number\<close> and \<open>p_receipt_number\<close> hold the number
  that follows the fixed prefix (\<open>TKT\<close>, \<open>RCP\<close>).
\<close>

record db =
  foreign_keys :: bool
  users :: "nat list"
  parking_slots :: "parking_slot list"
  vehicles :: "vehicle list"
  vehicles_seq :: nat
  drivers :: "driver list"
  drivers_seq :: nat
  parking_tickets :: "parking_ticket list"
  parking_tickets_seq :: nat
  payments :: "payment list"
  payments_seq :: nat
  shifts :: "shift list"
  shifts_seq :: nat

text \<open>
  SQLite's \<open>CURRENT_TIMESTAMP\<close> is the UTC time in whole seconds: the instant cut to the
  second.
\<close>

definition current_timestamp :: "int \<Rightarrow> int" where
  "current_timestamp now = 1000 * (now div 1000)"

text \<open>
  \<open>INTEGER PRIMARY KEY AUTOINCREMENT\<close>: the new row id is one more than the largest id
  the table has ever held.
\<close>

definition next_id :: "nat \<Rightarrow> nat list \<Rightarrow> nat" where
  "next_id seq ids = Suc (fold max ids seq)"

subsection \<open>Queries\<close>

definition get_slot :: "db \<Rightarrow> nat \<Rightarrow> parking_slot option" where
  "get_slot s i = find (\<lambda>sl. ps_id sl = i) (parking_slots s)"

definition get_ticket :: "db \<Rightarrow> nat \<Rightarrow> parking_ticket option" where
  "get_ticket s i = find (\<lambda>t. pt_id t = i) (parking_tickets s)"

definition get_vehicle :: "db \<Rightarrow> nat \<Rightarrow> vehicle option" where
  "get_vehicle s i = find (\<lambda>v. v_id v = i) (vehicles s)"

definition get_driver :: "db \<Rightarrow> nat \<Rightarrow> driver option" where
  "get_driver s i = find (\<lambda>d. d_id d = i) (drivers s)"

text \<open>\<open>SELECT ... FROM payments WHERE ticket_id = ?\<close>\<close>

definition payments_of :: "db \<Rightarrow> nat \<Rightarrow> payment list" where
  "payments_of s t = filter (\<lambda>p. p_ticket_id p = t) (payments s)"

text \<open>
  \<open>SELECT pt.*, ps.hourly_rate, ps.id as slot_id FROM parking_tickets pt
  JOIN parking_slots ps ON pt.slot_id = ps.id WHERE pt.id = ?\<close>
\<close>

definition ticket_join_slot :: "db \<Rightarrow> nat \<Rightarrow> (parking_ticket \<times> parking_slot) option" where
  "ticket_join_slot s i =
     (case get_ticket s i of
        None \<Rightarrow> None
      | Some t \<Rightarrow>
          (case get_slot s (pt_slot_id t) of
             None \<Rightarrow> None
           | Some sl \<Rightarrow> Some (t, sl)))"

subsection \<open>Statements that write\<close>

text \<open>
  Every statement can fail in the storage layer; the flag \<open>err\<close> says that it does. A
  statement also fails when it violates a constraint of the schema. A failed statement
  changes nothing and yields \<open>None\<close>.
\<close>

text \<open>\<open>UPDATE parking_slots SET status = ? WHERE id = ?\<close>\<close>

definition update_slot_status :: "bool \<Rightarrow> nat \<Rightarrow> slot_status \<Rightarrow> db \<Rightarrow> db option" where
  "update_slot_status err i st s =
     (if err then None
      else Some (s\<lparr>parking_slots :=
             map (\<lambda>sl. if ps_id sl = i then sl\<lparr>ps_status := st\<rparr> else sl) (parking_slots s)\<rparr>))"

text \<open>
  \<open>UPDATE parking_tickets SET check_out_time = CURRENT_TIMESTAMP, duration_hours = ?,
  total_amount = ?, payment_status = 'paid' WHERE id = ?\<close>
\<close>

definition update_ticket_paid :: "bool \<Rightarrow> nat \<Rightarrow> int \<Rightarrow> rat \<Rightarrow> rat \<Rightarrow> db \<Rightarrow> db option" where
  "update_ticket_paid err i now d c s =
     (if err then None
      else Some (s\<lparr>parking_tickets :=
             map (\<lambda>t. if pt_id t = i
                       then t\<lparr>pt_check_out_time := Some (current_timestamp now), pt_duration_hours := Some d,
                              pt_total_amount := Some c, pt_payment_status := paid\<rparr>
                       else t) (parking_tickets s)\<rparr>))"

text \<open>
  \<open>INSERT INTO payments (ticket_id, amount, payment_method, reference_number, cashier_id,
  receipt_number, notes)\<close>. The schema has \<open>CHECK(payment_method IN ('cash', 'mfs',
  'card'))\<close>, \<open>receipt_number UNIQUE\<close> and foreign keys to the ticket and the cashier.
\<close>

definition payment_method_ok :: "string \<Rightarrow> bool" where
  "payment_method_ok m = (m = ''cash'' \<or> m = ''mfs'' \<or> m = ''card'')"

definition insert_payment ::
  "bool \<Rightarrow> int \<Rightarrow> nat \<Rightarrow> rat \<Rightarrow> string \<Rightarrow> string \<Rightarrow> nat \<Rightarrow> int \<Rightarrow> string \<Rightarrow> db \<Rightarrow> (nat \<times> db) option" where
  "insert_payment err now t amt m ref cashier receipt nts s =
     (if err then None
      else if \<not> payment_method_ok m then None
      else if receipt \<in> set (map p_receipt_number (payments s)) then None
      else if foreign_keys s \<and> (get_ticket s t = None \<or> cashier \<notin> set (users s)) then None
      else
        let i = next_id (payments_seq s) (map p_id (payments s));
            row = \<lparr>p_id = i, p_ticket_id = t, p_amount = amt, p_payment_method = m,
                   p_reference_number = ref, p_cashier_id = cashier,
                   p_payment_date = current_timestamp now,
                   p_receipt_number = receipt, p_notes = nts\<rparr>
        in Some (i, s\<lparr>payments := payments s @ [row], payments_seq := i\<rparr>))"

section \<open>Billing\<close>

text \<open>\<open>a.diff(b, "hours", true)\<close>: the difference in milliseconds divided by 3600000, not rounded.\<close>

definition hours_between :: "int \<Rightarrow> int \<Rightarrow> rat" where
  "hours_between a b = of_int (a - b) / 3600000"

text \<open>
  \<open>moment(ticket.check_in_time)\<close> and \<open>new Date(ticket.check_in_time)\<close> read the stored
  text, which has no zone, as a local time. \<open>zone\<close> is the server's local time minus UTC,
  in milliseconds: the instant read is the stored one minus \<open>zone\<close>.
\<close>

definition read_local :: "int \<Rightarrow> int \<Rightarrow> int" where
  "read_local zone stored = stored - zone"

text \<open>\<open>now.diff(checkInTime, "hours", true)\<close> with \<open>checkInTime = moment(ticket.check_in_time)\<close>.\<close>

definition durationHours :: "int \<Rightarrow> int \<Rightarrow> int \<Rightarrow> rat" where
  "durationHours now zone check_in = hours_between now (read_local zone check_in)"

text \<open>
  \<open>Math.ceil(durationHours) * ticket.hourly_rate\<close>. In the product JavaScript reads a
  \<open>null\<close> rate as 0.
\<close>

definition totalCost :: "rat \<Rightarrow> rat option \<Rightarrow> rat" where
  "totalCost d rate = of_int \<lceil>d\<rceil> * (case rate of None \<Rightarrow> 0 | Some r \<Rightarrow> r)"

section \<open>Check-out: \<open>POST /cashier/check-out/:id\<close>\<close>

record checkout_body =
  payment_method :: string
  reference_number :: string
  notes_text :: string

record checkout_faults =
  co_ticket_get_err :: bool
  co_ticket_update_err :: bool
  co_payment_insert_err :: bool
  co_slot_update_err :: bool

text \<open>
  The responses of the handler. \<open>No_response\<close>: when the ticket update fails the callback
  records the failure and returns; nothing is sent.
\<close>

datatype checkout_response =
    Payment_method_is_required
  | Ticket_not_found
  | System_error_occurred
  | No_response
  | Failed_to_create_payment_record
  | Vehicle_checked_out_successfully

definition checkOut ::
  "checkout_faults \<Rightarrow> int \<Rightarrow> int \<Rightarrow> nat \<Rightarrow> nat \<Rightarrow> checkout_body \<Rightarrow> db \<Rightarrow>
     checkout_response \<times> db" where
  "checkOut f now zone user ticketId body s =
     (if payment_method body = [] then (Payment_method_is_required, s)
      else if co_ticket_get_err f then (System_error_occurred, s)
      else
        (case ticket_join_slot s ticketId of
           None \<Rightarrow> (Ticket_not_found, s)
         | Some (ticket, slot) \<Rightarrow>
             let d = durationHours now zone (pt_check_in_time ticket);
                 c = totalCost d (ps_hourly_rate slot)
             in
               (case update_ticket_paid (co_ticket_update_err f) ticketId now d c s of
                  None \<Rightarrow> (No_response, s)
                | Some s1 \<Rightarrow>
                    (case insert_payment (co_payment_insert_err f) now ticketId c
                            (payment_method body) (reference_number body) user now (notes_text body) s1 of
                       None \<Rightarrow> (Failed_to_create_payment_record, s1)
                     | Some (pid, s2) \<Rightarrow>
                         (case update_slot_status (co_slot_update_err f) (ps_id slot) vacant s2 of
                            None \<Rightarrow> (Vehicle_checked_out_successfully, s2)
                          | Some s3 \<Rightarrow> (Vehicle_checked_out_successfully, s3))))))"


text \<open>
  \<open>GET /api/tickets/:id/checkout\<close> computes the same cost for display, from
  \<open>(now - checkInTime) / (1000 * 60 * 60)\<close>, and writes nothing.
\<close>

definition ticket_join_all ::
  "db \<Rightarrow> nat \<Rightarrow> (parking_ticket \<times> parking_slot \<times> vehicle \<times> driver) option" where
  "ticket_join_all s i =
     (case get_ticket s i of
        None \<Rightarrow> None
      | Some t \<Rightarrow>
          (case get_slot s (pt_slot_id t) of
             None \<Rightarrow> None
           | Some sl \<Rightarrow>
               (case get_vehicle s (pt_vehicle_id t) of
                  None \<Rightarrow> None
                | Some v \<Rightarrow>
                    (case get_driver s (pt_driver_id t) of
                       None \<Rightarrow> None
                     | Some d \<Rightarrow> Some (t, sl, v, d)))))"

definition api_ticket_checkout :: "int \<Rightarrow> int \<Rightarrow> nat \<Rightarrow> db \<Rightarrow> rat option" where
  "api_ticket_checkout now zone i s =
     (case ticket_join_all s i of
        None \<Rightarrow> None
      | Some (t, sl, v, d) \<Rightarrow>
          Some (totalCost (of_int (now - read_local zone (pt_check_in_time t)) / (1000 * 60 * 60))
                  (ps_hourly_rate sl)))"

section \<open>Check-in: \<open>POST /cashier/check-in\<close>\<close>

text \<open>
  \<open>INSERT OR REPLACE INTO vehicles (license_plate, ...)\<close>. \<open>license_plate\<close> is \<open>UNIQUE\<close>:
  a row with the same plate is deleted before the new row is inserted, and the new row
  gets a fresh id. \<open>parking_tickets.vehicle_id\<close> references \<open>vehicles (id)\<close> with no
  \<open>ON DELETE\<close> action, so with foreign keys on the statement fails when a ticket
  references a row it would delete.
\<close>

definition insert_or_replace_vehicle ::
  "bool \<Rightarrow> string \<Rightarrow> string list \<Rightarrow> db \<Rightarrow> (nat \<times> db) option" where
  "insert_or_replace_vehicle err plate cols s =
     (let old = filter (\<lambda>v. v_license_plate v = plate) (vehicles s) in
      if err then None
      else if foreign_keys s \<and>
              list_ex (\<lambda>t. pt_vehicle_id t \<in> set (map v_id old)) (parking_tickets s) then None
      else
        let i = next_id (vehicles_seq s) (map v_id (vehicles s));
            row = \<lparr>v_id = i, v_license_plate = plate, v_columns = cols\<rparr>
        in Some (i, s\<lparr>vehicles := filter (\<lambda>v. v_license_plate v \<noteq> plate) (vehicles s) @ [row],
                       vehicles_seq := i\<rparr>))"

text \<open>
  \<open>INSERT OR REPLACE INTO drivers (full_name, ...)\<close>. Table \<open>drivers\<close> has no \<open>UNIQUE\<close>
  column but its id, which the statement does not give: it never replaces a row.
\<close>

definition insert_driver :: "bool \<Rightarrow> string \<Rightarrow> string list \<Rightarrow> db \<Rightarrow> (nat \<times> db) option" where
  "insert_driver err name cols s =
     (if err then None
      else
        let i = next_id (drivers_seq s) (map d_id (drivers s));
            row = \<lparr>d_id = i, d_full_name = name, d_columns = cols\<rparr>
        in Some (i, s\<lparr>drivers := drivers s @ [row], drivers_seq := i\<rparr>))"

text \<open>
  \<open>INSERT INTO parking_tickets (ticket_number, slot_id, vehicle_id, driver_id, cashier_id,
  check_in_time)\<close>. \<open>ticket_number\<close> is \<open>UNIQUE\<close>; the four ids are foreign keys;
  \<open>payment_status\<close> defaults to \<open>pending\<close>.
\<close>

definition insert_ticket ::
  "bool \<Rightarrow> int \<Rightarrow> int \<Rightarrow> nat \<Rightarrow> nat \<Rightarrow> nat \<Rightarrow> nat \<Rightarrow> db \<Rightarrow> (nat \<times> db) option" where
  "insert_ticket err now number slot veh drv cashier s =
     (if err then None
      else if number \<in> set (map pt_ticket_number (parking_tickets s)) then None
      else if foreign_keys s \<and>
              (get_slot s slot = None \<or> get_vehicle s veh = None \<or> get_driver s drv = None \<or>
               cashier \<notin> set (users s)) then None
      else
        let i = next_id (parking_tickets_seq s) (map pt_id (parking_tickets s));
            row = \<lparr>pt_id = i, pt_ticket_number = number, pt_slot_id = slot, pt_vehicle_id = veh,
                   pt_driver_id = drv, pt_cashier_id = cashier, pt_check_in_time = current_timestamp now,
                   pt_check_out_time = None, pt_duration_hours = None, pt_total_amount = None,
                   pt_payment_status = pending\<rparr>
        in Some (i, s\<lparr>parking_tickets := parking_tickets s @ [row], parking_tickets_seq := i\<rparr>))"

text \<open>
  The request body. A field that is missing or empty is \<open>None\<close> (\<open>slot_id\<close>) or the empty
  string. \<open>vehicle_columns\<close> is make, model, color, year, owner name, phone and email;
  \<open>driver_columns\<close> is the driver's phone, email, id number, license number and address.
\<close>

record checkin_body =
  slot_id :: "nat option"
  license_plate :: string
  vehicle_columns :: "string list"
  driver_name :: string
  driver_columns :: "string list"

record checkin_faults =
  ci_slot_get_err :: bool
  ci_vehicle_insert_err :: bool
  ci_driver_insert_err :: bool
  ci_ticket_insert_err :: bool
  ci_slot_update_err :: bool

datatype checkin_response =
    Required_fields_are_missing
  | Selected_slot_is_no_longer_available
  | Failed_to_register_vehicle
  | Failed_to_register_driver
  | Failed_to_create_parking_ticket
  | Vehicle_checked_in_successfully nat

definition checkIn ::
  "checkin_faults \<Rightarrow> int \<Rightarrow> nat \<Rightarrow> checkin_body \<Rightarrow> db \<Rightarrow> checkin_response \<times> db" where
  "checkIn f now user body s =
     (case slot_id body of
        None \<Rightarrow> (Required_fields_are_missing, s)
      | Some sid \<Rightarrow>
          if license_plate body = [] \<or> driver_name body = [] then (Required_fields_are_missing, s)
          else if ci_slot_get_err f then (Selected_slot_is_no_longer_available, s)
          else
            (case get_slot s sid of
               None \<Rightarrow> (Selected_slot_is_no_longer_available, s)
             | Some slot \<Rightarrow>
                 if ps_status slot \<noteq> vacant then (Selected_slot_is_no_longer_available, s)
                 else
                   (case insert_or_replace_vehicle (ci_vehicle_insert_err f)
                           (license_plate body) (vehicle_columns body) s of
                      None \<Rightarrow> (Failed_to_register_vehicle, s)
                    | Some (vehicleId, s1) \<Rightarrow>
                        (case insert_driver (ci_driver_insert_err f)
                                (driver_name body) (driver_columns body) s1 of
                           None \<Rightarrow> (Failed_to_register_driver, s1)
                         | Some (driverId, s2) \<Rightarrow>
                             (case insert_ticket (ci_ticket_insert_err f) now now sid
                                     vehicleId driverId user s2 of
                                None \<Rightarrow> (Failed_to_create_parking_ticket, s2)
                              | Some (ticketId, s3) \<Rightarrow>
                                  (case update_slot_status (ci_slot_update_err f) sid occupied s3 of
                                     None \<Rightarrow> (Vehicle_checked_in_successfully ticketId, s3)
                                   | Some s4 \<Rightarrow> (Vehicle_checked_in_successfully ticketId, s4)))))))"

section \<open>Ticket view: \<open>GET /cashier/ticket/:id\<close>\<close>

text \<open>
  The ticket joined with its slot, vehicle and driver, and the estimated cost; \<open>None\<close> is
  the 404 page "Ticket Not Found".
\<close>

definition view_ticket ::
  "int \<Rightarrow> int \<Rightarrow> nat \<Rightarrow> db \<Rightarrow>
     ((parking_ticket \<times> parking_slot \<times> vehicle \<times> driver) \<times> rat) option" where
  "view_ticket now zone i s =
     (case ticket_join_all s i of
        None \<Rightarrow> None
      | Some (t, sl, v, d) \<Rightarrow>
          Some ((t, sl, v, d),
                totalCost (durationHours now zone (pt_check_in_time t)) (ps_hourly_rate sl)))"


section \<open>Check-out page: \<open>GET /cashier/check-out/:id\<close>\<close>

datatype checkout_page =
    Page_Ticket_Not_Found
  | Ticket_is_already_paid
  | Check_out_form rat rat

definition checkout_page :: "int \<Rightarrow> int \<Rightarrow> nat \<Rightarrow> db \<Rightarrow> checkout_page" where
  "checkout_page now zone i s =
     (case ticket_join_all s i of
        None \<Rightarrow> Page_Ticket_Not_Found
      | Some (t, sl, v, d) \<Rightarrow>
          if pt_payment_status t = paid then Ticket_is_already_paid
          else
            let dur = durationHours now zone (pt_check_in_time t)
            in Check_out_form dur (totalCost dur (ps_hourly_rate sl)))"

section \<open>Receipt and payment recovery: \<open>GET /cashier/receipt/:id\<close>\<close>

record receipt_faults =
  rc_ticket_get_err :: bool
  rc_payment_get_err :: bool
  rc_slot_get_err :: bool
  rc_payment_insert_err :: bool
  rc_receipt_get_err :: bool

text \<open>
  The amount of a recovered payment when the ticket's \<open>total_amount\<close> is zero or absent:
  computed from the two timestamps and the slot's rate when the slot row and the
  check-out time are there (\<open>check_in_time\<close> is \<open>NOT NULL\<close>), and 5 otherwise. Both
  timestamps are read as local times, so the zone drops out of their difference.
\<close>

definition recovery_amount :: "parking_ticket \<Rightarrow> parking_slot option \<Rightarrow> rat" where
  "recovery_amount ticket slotInfo =
     (case (slotInfo, pt_check_out_time ticket) of
        (Some sl, Some out) \<Rightarrow>
          totalCost (hours_between out (pt_check_in_time ticket)) (ps_hourly_rate sl)
      | _ \<Rightarrow> 5)"

text \<open>
  The recovery block (the inner \<open>try\<close>): \<open>None\<close> when the slot query or the insert is
  rejected, which the handler answers with "Payment record not found and could not be
  recovered. Please contact system administrator."
\<close>

definition recover_missing_payment ::
  "receipt_faults \<Rightarrow> int \<Rightarrow> nat \<Rightarrow> parking_ticket \<Rightarrow> db \<Rightarrow> db option" where
  "recover_missing_payment f now user ticket s =
     (case (if pt_total_amount ticket = None \<or> pt_total_amount ticket = Some 0
            then (if rc_slot_get_err f then None
                  else Some (recovery_amount ticket (get_slot s (pt_slot_id ticket))))
            else pt_total_amount ticket) of
        None \<Rightarrow> None
      | Some paymentAmount \<Rightarrow>
          map_option snd
            (insert_payment (rc_payment_insert_err f) now (pt_id ticket) paymentAmount
               ''cash'' ''RECOVERY'' user now ''Payment record recovered automatically'' s))"

text \<open>
  The receipt query: the ticket joined with its slot, vehicle, driver, payment and
  cashier; the first row of the join.
\<close>

definition receipt_join ::
  "db \<Rightarrow> nat \<Rightarrow> (parking_ticket \<times> parking_slot \<times> vehicle \<times> driver \<times> payment) option" where
  "receipt_join s i =
     (case ticket_join_all s i of
        None \<Rightarrow> None
      | Some (t, sl, v, d) \<Rightarrow>
          (case payments_of s i of
             [] \<Rightarrow> None
           | p # ps \<Rightarrow> if pt_cashier_id t \<in> set (users s) then Some (t, sl, v, d, p) else None))"

datatype receipt_response =
    Ticket_Not_Found
  | Payment_Required
  | Payment_Record_Missing
  | Receipt_Not_Found
  | Failed_to_load_receipt
  | Payment_Receipt "parking_ticket \<times> parking_slot \<times> vehicle \<times> driver \<times> payment"

definition receipt ::
  "receipt_faults \<Rightarrow> int \<Rightarrow> nat \<Rightarrow> nat \<Rightarrow> db \<Rightarrow> receipt_response \<times> db" where
  "receipt f now user ticketId s =
     (if rc_ticket_get_err f then (Failed_to_load_receipt, s)
      else
        (case get_ticket s ticketId of
           None \<Rightarrow> (Ticket_Not_Found, s)
         | Some ticket \<Rightarrow>
             if pt_payment_status ticket \<noteq> paid then (Payment_Required, s)
             else if rc_payment_get_err f then (Failed_to_load_receipt, s)
             else
               (case (case payments_of s ticketId of
                        [] \<Rightarrow> recover_missing_payment f now user ticket s
                      | paymentCheck # ps \<Rightarrow> Some s) of
                  None \<Rightarrow> (Payment_Record_Missing, s)
                | Some s1 \<Rightarrow>
                    if rc_receipt_get_err f then (Failed_to_load_receipt, s1)
                    else
                      (case receipt_join s1 ticketId of
                         None \<Rightarrow> (Receipt_Not_Found, s1)
                       | Some r \<Rightarrow> (Payment_Receipt r, s1)))))"

text \<open>The response is the rendered receipt.\<close>

fun rendered :: "receipt_response \<Rightarrow> bool" where
  "rendered (Payment_Receipt r) = True"
| "rendered _ = False"

section \<open>Shifts: \<open>GET\<close> and \<open>POST /cashier/shift/open\<close>\<close>

text \<open>\<open>DATE('now')\<close>: the day of a point in time.\<close>

definition date_of :: "int \<Rightarrow> int" where
  "date_of now = now div 86400000"

text \<open>
  \<open>SELECT * FROM shifts WHERE cashier_id = ? AND shift_date = DATE('now') AND status =
  'open'\<close>: the query of the page \<open>GET /cashier/shift/open\<close>, under the comment "Check if
  shift is already open".
\<close>

definition open_shifts :: "db \<Rightarrow> nat \<Rightarrow> int \<Rightarrow> shift list" where
  "open_shifts s cashier day =
     filter (\<lambda>sh. sh_cashier_id sh = cashier \<and> sh_shift_date sh = day \<and> sh_status sh = open_shift)
       (shifts s)"

definition shift_open_page :: "int \<Rightarrow> nat \<Rightarrow> db \<Rightarrow> shift option" where
  "shift_open_page now user s =
     (case open_shifts s user (date_of now) of [] \<Rightarrow> None | currentShift # rest \<Rightarrow> Some currentShift)"

text \<open>
  \<open>INSERT INTO shifts (cashier_id, shift_date, open_time, opening_amount, notes) VALUES (?,
  DATE('now'), CURRENT_TIMESTAMP, ?, ?)\<close>; \<open>status\<close> defaults to \<open>open\<close>. The table has
  no \<open>UNIQUE\<close> constraint (the index on \<open>(cashier_id, shift_date)\<close> is not unique); the
  cashier is a foreign key.
\<close>

definition insert_shift :: "bool \<Rightarrow> int \<Rightarrow> nat \<Rightarrow> rat \<Rightarrow> string \<Rightarrow> db \<Rightarrow> (nat \<times> db) option" where
  "insert_shift err now cashier amount nts s =
     (if err then None
      else if foreign_keys s \<and> cashier \<notin> set (users s) then None
      else
        let i = next_id (shifts_seq s) (map sh_id (shifts s));
            row = \<lparr>sh_id = i, sh_cashier_id = cashier, sh_shift_date = date_of now,
                   sh_open_time = current_timestamp now, sh_opening_amount = amount, sh_status = open_shift,
                   sh_notes = nts\<rparr>
        in Some (i, s\<lparr>shifts := shifts s @ [row], shifts_seq := i\<rparr>))"

datatype openshift_response = Failed_to_open_shift | Shift_opened_successfully

text \<open>\<open>opening_amount || 0\<close>: a missing amount is 0.\<close>

definition openShift ::
  "bool \<Rightarrow> int \<Rightarrow> nat \<Rightarrow> rat option \<Rightarrow> string \<Rightarrow> db \<Rightarrow> openshift_response \<times> db" where
  "openShift err now user opening_amount nts s =
     (case insert_shift err now user (case opening_amount of None \<Rightarrow> 0 | Some a \<Rightarrow> a) nts s of
        None \<Rightarrow> (Failed_to_open_shift, s)
      | Some (i, s1) \<Rightarrow> (Shift_opened_successfully, s1))"

section \<open>The initial store\<close>

text \<open>
  \<open>initDatabase\<close> turns foreign keys on, creates the tables, the two default users (admin
  and cashier) and 38 slots, all vacant: A01 to A20 and B01 to B15 at 5.00 an hour, D01
  at 3.00, V01 and V02 at 8.00. The rows are inserted from callbacks; the ids below are
  the ones they get when the inserts run in the order in which the code issues them.
\<close>

definition default_slot :: "rat \<Rightarrow> nat \<Rightarrow> parking_slot" where
  "default_slot rate i = \<lparr>ps_id = i, ps_status = vacant, ps_hourly_rate = Some rate\<rparr>"

definition initDatabase :: db where
  "initDatabase =
     \<lparr>foreign_keys = True, users = [1, 2],
      parking_slots = map (default_slot 5) [1..<36] @
                      [default_slot 3 36, default_slot 8 37, default_slot 8 38],
      vehicles = [], vehicles_seq = 0, drivers = [], drivers_seq = 0,
      parking_tickets = [], parking_tickets_seq = 0, payments = [], payments_seq = 0,
      shifts = [], shifts_seq = 0\<rparr>"

section \<open>Sequences of requests\<close>




text \<open>No statement fails in the storage layer.\<close>

definition no_checkin_faults :: checkin_faults where
  "no_checkin_faults =
     \<lparr>ci_slot_get_err = False, ci_vehicle_insert_err = False, ci_driver_insert_err = False,
      ci_ticket_insert_err = False, ci_slot_update_err = False\<rparr>"

definition no_checkout_faults :: checkout_faults where
  "no_checkout_faults =
     \<lparr>co_ticket_get_err = False, co_ticket_update_err = False, co_payment_insert_err = False,
      co_slot_update_err = False\<rparr>"

definition no_receipt_faults :: receipt_faults where
  "no_receipt_faults =
     \<lparr>rc_ticket_get_err = False, rc_payment_get_err = False, rc_slot_get_err = False,
      rc_payment_insert_err = False, rc_receipt_get_err = False\<rparr>"

section \<open>The occupancy invariant\<close>

text \<open>The tickets that reference a slot and have no check-out time.\<close>

definition open_tickets :: "db \<Rightarrow> nat \<Rightarrow> parking_ticket list" where
  "open_tickets s slot =
     filter (\<lambda>t. pt_slot_id t = slot \<and> pt_check_out_time t = None) (parking_tickets s)"

definition occupancy_ok :: "db \<Rightarrow> bool" where
  "occupancy_ok s =
     list_all (\<lambda>sl. (ps_status sl = occupied) = (length (open_tickets s (ps_id sl)) = 1))
       (parking_slots s)"


text \<open>
  The invariant that the handlers keep when their writes are complete: occupancy as
  above, at most one open ticket on a slot, unique ticket ids, and no check-out time on
  a pending ticket.
\<close>

definition consistent :: "db \<Rightarrow> bool" where
  "consistent s =
     (occupancy_ok s \<and>
      list_all (\<lambda>sl. length (open_tickets s (ps_id sl)) \<le> 1) (parking_slots s) \<and>
      distinct (map pt_id (parking_tickets s)) \<and>
      list_all (\<lambda>t. pt_payment_status t = pending \<longrightarrow> pt_check_out_time t = None)
        (parking_tickets s))"



section \<open>Example requests and stores\<close>

text \<open>
  A check-in of plate ABC into slot 1 and a cash check-out; the cashier is user 2, the
  default cashier.
\<close>

definition example_checkin :: checkin_body where
  "example_checkin =
     \<lparr>slot_id = Some 1, license_plate = ''ABC'', vehicle_columns = [],
      driver_name = ''Ann'', driver_columns = []\<rparr>"

definition cash_body :: checkout_body where
  "cash_body = \<lparr>payment_method = ''cash'', reference_number = [], notes_text = []\<rparr>"

text \<open>\<open>parked\<close>: the initial store after the check-in at time 0; ticket 1 is open on slot 1.\<close>

definition parked :: db where
  "parked = snd (checkIn no_checkin_faults 0 2 example_checkin initDatabase)"

text \<open>\<open>parked_at n\<close>: the same check-in at instant \<open>n\<close>.\<close>

definition parked_at :: "int \<Rightarrow> db" where
  "parked_at n = snd (checkIn no_checkin_faults n 2 example_checkin initDatabase)"

text \<open>\<open>settled\<close>: ticket 1 checked out after one hour; slot 1 is vacant again.\<close>

definition settled :: db where
  "settled = snd (checkOut no_checkout_faults 3600000 0 2 1 cash_body parked)"

text \<open>\<open>reparked\<close>: after that, plate XYZ is checked into slot 1 as ticket 2.\<close>

definition reparked :: db where
  "reparked =
     snd (checkIn no_checkin_faults 7200000 2 (example_checkin\<lparr>license_plate := ''XYZ''\<rparr>) settled)"



text \<open>
  \<open>paid_without_times\<close>: a store in which ticket 1 is marked paid and has no check-out
  time, no total amount and no payment row.
\<close>

definition paid_without_times :: db where
  "paid_without_times =
     parked\<lparr>parking_tickets := map (\<lambda>t. t\<lparr>pt_payment_status := paid\<rparr>) (parking_tickets parked)\<rparr>"

text \<open>\<open>shift_opened\<close>: the cashier has opened a shift on day 0.\<close>

definition shift_opened :: db where
  "shift_opened = snd (openShift False 1000 2 (Some 100) [] initDatabase)"


section \<open>Lemmas on the queries and on a successful check-out\<close>


lemma find_Some_key: "find (\<lambda>x. key x = i) xs = Some y \<Longrightarrow> key y = i"
  by (induction xs) (auto split: if_splits)




text \<open>The cost that \<open>GET /api/tickets/:id/checkout\<close> displays is the one the check-out bills.\<close>

lemma api_ticket_checkout_cost:
  assumes "ticket_join_all s i = Some (t, sl, v, d)"
  shows "api_ticket_checkout now zone i s =
           Some (totalCost (durationHours now zone (pt_check_in_time t)) (ps_hourly_rate sl))"
  using assms by (simp add: api_ticket_checkout_def durationHours_def hours_between_def)

section \<open>The writes of a check-out\<close>





text \<open>
  Claim C4: a check-out of a ticket that is not pending fails and changes nothing. The
  page \<open>GET /cashier/check-out/:id\<close> refuses a paid ticket ("Ticket is already paid");
  the handler of the \<open>POST\<close> does not look at the payment status. In \<open>settled\<close> ticket 1
  is paid and has one payment row; a second check-out an hour later succeeds, overwrites
  the ticket's total and appends a second payment row.
\<close>

theorem checkOut_paid_ticket_pays_again:
  "map_option pt_payment_status (get_ticket settled 1) = Some paid \<and>
   length (payments_of settled 1) = 1 \<and>
   checkout_page 7200000 0 1 settled = Ticket_is_already_paid \<and>
   fst (checkOut no_checkout_faults 7200000 0 2 1 cash_body settled) = Vehicle_checked_out_successfully \<and>
   snd (checkOut no_checkout_faults 7200000 0 2 1 cash_body settled) \<noteq> settled \<and>
   length (payments_of (snd (checkOut no_checkout_faults 7200000 0 2 1 cash_body settled)) 1) = 2 \<and>
   map_option pt_total_amount
     (get_ticket (snd (checkOut no_checkout_faults 7200000 0 2 1 cash_body settled)) 1) = Some (Some 10)"
  by code_simp

text \<open>
  The same missing guard reaches the slots. The stores \<open>initDatabase\<close>, \<open>parked\<close>,
  \<open>settled\<close> and \<open>reparked\<close> satisfy the occupancy invariant. In \<open>reparked\<close> ticket 2 is
  open on slot 1; a second check-out of the paid ticket 1, with no storage failure, sets
  slot 1 to vacant while ticket 2 is still open on it.
\<close>

lemma second_checkOut_breaks_occupancy:
  "occupancy_ok initDatabase \<and> occupancy_ok parked \<and> occupancy_ok settled \<and> occupancy_ok reparked \<and>
   fst (checkOut no_checkout_faults 9000000 0 2 1 cash_body reparked) = Vehicle_checked_out_successfully \<and>
   map_option ps_status
     (get_slot (snd (checkOut no_checkout_faults 9000000 0 2 1 cash_body reparked)) 1) = Some vacant \<and>
   map pt_id (open_tickets (snd (checkOut no_checkout_faults 9000000 0 2 1 cash_body reparked)) 1) = [2] \<and>
   \<not> occupancy_ok (snd (checkOut no_checkout_faults 9000000 0 2 1 cash_body reparked))"
  by code_simp

section \<open>Opening a shift\<close>

text \<open>
  Claim C5: opening a shift fails when the cashier has an open shift on that day. The
  page \<open>GET /cashier/shift/open\<close> looks the open shift up; the handler of the \<open>POST\<close>
  inserts without looking. In \<open>shift_opened\<close> cashier 2 has an open shift on day 0; a
  second request succeeds and leaves two open shifts for that cashier and day.
\<close>

theorem openShift_with_open_shift_opens_another:
  "length (open_shifts shift_opened 2 (date_of 2000)) = 1 \<and>
   shift_open_page 2000 2 shift_opened \<noteq> None \<and>
   fst (openShift False 2000 2 (Some 50) [] shift_opened) = Shift_opened_successfully \<and>
   length (shifts (snd (openShift False 2000 2 (Some 50) [] shift_opened))) =
     Suc (length (shifts shift_opened)) \<and>
   length (open_shifts (snd (openShift False 2000 2 (Some 50) [] shift_opened)) 2 (date_of 2000)) = 2"
  by code_simp

section \<open>Check-in\<close>

text \<open>
  Claim C9. A check-in with its required fields for a slot that does not exist or is not
  vacant is answered "Selected slot is no longer available" and leaves the store as it
  was: no vehicle, driver or ticket row is created and no slot changes.
\<close>

theorem checkIn_unavailable_slot:
  assumes "slot_id body = Some sid"
      and "license_plate body \<noteq> []"
      and "driver_name body \<noteq> []"
      and "map_option ps_status (get_slot s sid) \<noteq> Some vacant"
  shows "checkIn f now user body s = (Selected_slot_is_no_longer_available, s)"
  using assms by (auto simp: checkIn_def split: option.splits)

text \<open>The witness of C9: the occupied slot 1 of \<open>parked\<close>, and a slot 99 that does not exist.\<close>

theorem checkIn_unavailable_slot_witness:
  "checkIn no_checkin_faults 5000 2 (example_checkin\<lparr>license_plate := ''XYZ''\<rparr>) parked =
     (Selected_slot_is_no_longer_available, parked) \<and>
   checkIn no_checkin_faults 5000 2 (example_checkin\<lparr>slot_id := Some 99\<rparr>) initDatabase =
     (Selected_slot_is_no_longer_available, initDatabase)"
proof -
  let ?b = "example_checkin\<lparr>license_plate := ''XYZ''\<rparr>"
  let ?c = "example_checkin\<lparr>slot_id := Some 99\<rparr>"
  have 1: "slot_id ?b = Some 1" "license_plate ?b \<noteq> []" "driver_name ?b \<noteq> []"
    by (simp_all add: example_checkin_def)
  have 2: "map_option ps_status (get_slot parked 1) \<noteq> Some vacant" by code_simp
  have 3: "slot_id ?c = Some 99" "license_plate ?c \<noteq> []" "driver_name ?c \<noteq> []"
    by (simp_all add: example_checkin_def)
  have 4: "map_option ps_status (get_slot initDatabase 99) \<noteq> Some vacant" by code_simp
  from checkIn_unavailable_slot[OF 1 2] checkIn_unavailable_slot[OF 3 4]
  show ?thesis by simp
qed

section \<open>Payment recovery\<close>

lemma insert_payment_Some:
  assumes "insert_payment err now t amt m ref cashier rcp nts s = Some (j, s')"
  shows "\<exists>p. s' = s\<lparr>payments := payments s @ [p], payments_seq := j\<rparr> \<and> p_ticket_id p = t \<and>
             p_amount p = amt \<and> p_payment_method p = m \<and> p_reference_number p = ref"
  using assms unfolding insert_payment_def Let_def
  by (auto split: if_splits)











text \<open>
  Claim C6 says that recovery fails, and inserts nothing, when the amount cannot be
  reconstructed. In \<open>paid_without_times\<close> ticket 1 is paid and has no total amount, no
  check-out time and no payment row: the receipt is rendered, with a recovered payment
  of the default amount 5.
\<close>

theorem recovery_default_amount_counterexample:
  "map_option pt_payment_status (get_ticket paid_without_times 1) = Some paid \<and>
   map_option pt_total_amount (get_ticket paid_without_times 1) = Some None \<and>
   map_option pt_check_out_time (get_ticket paid_without_times 1) = Some None \<and>
   payments_of paid_without_times 1 = [] \<and>
   rendered (fst (receipt no_receipt_faults 5000000 2 1 paid_without_times)) \<and>
   map p_amount (payments_of (snd (receipt no_receipt_faults 5000000 2 1 paid_without_times)) 1) = [5]"
  by code_simp


text \<open>
  Claim C6 as amended. For a paid ticket without payment row whose total amount is zero
  or absent, and whose slot row or check-out time is missing, the recovery path inserts
  one payment row with the default amount 5, method cash and reference RECOVERY. When
  the storage layer does not fail the handler's queries, it answers "Payment record not
  found and could not be recovered. Please contact system administrator." exactly when
  that insert is rejected, and then the store is unchanged.
\<close>

theorem recovery_inserts_default_amount:
  assumes "get_ticket s i = Some t"
      and "pt_payment_status t = paid"
      and "payments_of s i = []"
      and "pt_total_amount t = None \<or> pt_total_amount t = Some 0"
      and "get_slot s (pt_slot_id t) = None \<or> pt_check_out_time t = None"
      and "\<not> rc_ticket_get_err f" and "\<not> rc_payment_get_err f" and "\<not> rc_slot_get_err f"
  shows "(fst (receipt f now user i s) = Payment_Record_Missing) =
           (insert_payment (rc_payment_insert_err f) now i 5 ''cash'' ''RECOVERY'' user now
              ''Payment record recovered automatically'' s = None) \<and>
         (fst (receipt f now user i s) = Payment_Record_Missing \<longrightarrow>
            snd (receipt f now user i s) = s) \<and>
         (fst (receipt f now user i s) \<noteq> Payment_Record_Missing \<longrightarrow>
            (\<exists>p. payments (snd (receipt f now user i s)) = payments s @ [p] \<and>
                 p_ticket_id p = i \<and> p_amount p = 5 \<and> p_payment_method p = ''cash'' \<and>
                 p_reference_number p = ''RECOVERY''))"
proof -
  let ?ins = "insert_payment (rc_payment_insert_err f) now i 5 ''cash'' ''RECOVERY'' user now
                ''Payment record recovered automatically'' s"
  have id: "pt_id t = i"
    using assms(1) unfolding get_ticket_def by (rule find_Some_key)
  have amt: "recovery_amount t (get_slot s (pt_slot_id t)) = 5"
    using assms(5) by (auto simp: recovery_amount_def split: option.splits)
  have rec: "recover_missing_payment f now user t s = map_option snd ?ins"
    using assms(4,8) id amt by (auto simp: recover_missing_payment_def)
  have rc: "receipt f now user i s =
              (case map_option snd ?ins of
                 None \<Rightarrow> (Payment_Record_Missing, s)
               | Some s1 \<Rightarrow>
                   if rc_receipt_get_err f then (Failed_to_load_receipt, s1)
                   else (case receipt_join s1 i of
                           None \<Rightarrow> (Receipt_Not_Found, s1)
                         | Some r \<Rightarrow> (Payment_Receipt r, s1)))"
    using assms(1,2,3,6,7) rec by (simp add: receipt_def)
  show ?thesis
  proof (cases ?ins)
    case None
    then show ?thesis by (simp add: rc)
  next
    case (Some a)
    obtain j s1 where a: "a = (j, s1)" by (cases a)
    from insert_payment_Some[OF Some[unfolded a]]
    obtain p where p: "payments s1 = payments s @ [p]" "p_ticket_id p = i" "p_amount p = 5"
        "p_payment_method p = ''cash''" "p_reference_number p = ''RECOVERY''"
      by auto
    have "snd (receipt f now user i s) = s1" "fst (receipt f now user i s) \<noteq> Payment_Record_Missing"
      using Some a by (auto simp: rc split: option.splits)
    with p Some show ?thesis by auto
  qed
qed

text \<open>The witness of C6: ticket 1 of \<open>paid_without_times\<close>, with and without a failing insert.\<close>

theorem recovery_inserts_default_amount_witness:
  "fst (receipt no_receipt_faults 5000000 2 1 paid_without_times) \<noteq> Payment_Record_Missing \<and>
   (\<exists>p. payments (snd (receipt no_receipt_faults 5000000 2 1 paid_without_times)) =
          payments paid_without_times @ [p] \<and>
        p_ticket_id p = 1 \<and> p_amount p = 5 \<and> p_payment_method p = ''cash'' \<and>
        p_reference_number p = ''RECOVERY'') \<and>
   receipt (no_receipt_faults\<lparr>rc_payment_insert_err := True\<rparr>) 5000000 2 1 paid_without_times =
     (Payment_Record_Missing, paid_without_times)"
proof -
  let ?t = "\<lparr>pt_id = 1, pt_ticket_number = 0, pt_slot_id = 1, pt_vehicle_id = 1,
             pt_driver_id = 1, pt_cashier_id = 2, pt_check_in_time = 0,
             pt_check_out_time = None, pt_duration_hours = None,
             pt_total_amount = None, pt_payment_status = paid\<rparr>"
  let ?f = "no_receipt_faults\<lparr>rc_payment_insert_err := True\<rparr>"
  have a: "get_ticket paid_without_times 1 = Some ?t" by code_simp
  have b: "pt_payment_status ?t = paid" by simp
  have c: "payments_of paid_without_times 1 = []" by code_simp
  have d: "pt_total_amount ?t = None \<or> pt_total_amount ?t = Some 0" by simp
  have e: "get_slot paid_without_times (pt_slot_id ?t) = None \<or> pt_check_out_time ?t = None" by simp
  have n: "\<not> rc_ticket_get_err no_receipt_faults" "\<not> rc_payment_get_err no_receipt_faults"
          "\<not> rc_slot_get_err no_receipt_faults"
    by (simp_all add: no_receipt_faults_def)
  have n': "\<not> rc_ticket_get_err ?f" "\<not> rc_payment_get_err ?f" "\<not> rc_slot_get_err ?f"
    by (simp_all add: no_receipt_faults_def)
  have ok: "insert_payment (rc_payment_insert_err no_receipt_faults) 5000000 1 5 ''cash'' ''RECOVERY'' 2
              5000000 ''Payment record recovered automatically'' paid_without_times \<noteq> None"
    by code_simp
  have ko: "insert_payment (rc_payment_insert_err ?f) 5000000 1 5 ''cash'' ''RECOVERY'' 2
              5000000 ''Payment record recovered automatically'' paid_without_times = None"
    by (simp add: insert_payment_def)
  from recovery_inserts_default_amount[OF a b c d e n, of 5000000 2] ok
  have 1: "fst (receipt no_receipt_faults 5000000 2 1 paid_without_times) \<noteq> Payment_Record_Missing"
    and 2: "\<exists>p. payments (snd (receipt no_receipt_faults 5000000 2 1 paid_without_times)) =
          payments paid_without_times @ [p] \<and>
        p_ticket_id p = 1 \<and> p_amount p = 5 \<and> p_payment_method p = ''cash'' \<and>
        p_reference_number p = ''RECOVERY''"
    by blast+
  from recovery_inserts_default_amount[OF a b c d e n', of 5000000 2] ko
  have 3: "receipt ?f 5000000 2 1 paid_without_times = (Payment_Record_Missing, paid_without_times)"
    by (metis prod.collapse)
  from 1 2 3 show ?thesis by blast
qed

section \<open>Check-in of a known license plate\<close>

lemma fold_max_ge: "seq \<le> fold max ids (seq::nat)"
  by (induction ids arbitrary: seq) (auto intro: order_trans[OF max.cobounded2])

lemma fold_max_mem: "x \<in> set ids \<Longrightarrow> x \<le> fold max ids (seq::nat)"
  by (induction ids arbitrary: seq) (auto intro: order_trans[OF max.cobounded1 fold_max_ge])

lemma next_id_gt: "x \<in> set ids \<Longrightarrow> x < next_id seq ids"
  unfolding next_id_def by (simp add: fold_max_mem less_Suc_eq_le)

lemma insert_or_replace_vehicle_Some:
  assumes "insert_or_replace_vehicle err plate cols s = Some (j, s1)"
  shows "j = next_id (vehicles_seq s) (map v_id (vehicles s)) \<and>
         s1 = s\<lparr>vehicles := filter (\<lambda>v. v_license_plate v \<noteq> plate) (vehicles s) @
                               [\<lparr>v_id = j, v_license_plate = plate, v_columns = cols\<rparr>],
                 vehicles_seq := j\<rparr> \<and>
         \<not> (foreign_keys s \<and>
            list_ex (\<lambda>t. pt_vehicle_id t \<in> set (map v_id (filter (\<lambda>v. v_license_plate v = plate) (vehicles s))))
              (parking_tickets s))"
  using assms unfolding insert_or_replace_vehicle_def Let_def
  by (auto split: if_splits)

lemma insert_driver_Some:
  assumes "insert_driver err name cols s = Some (j, s1)"
  shows "j = next_id (drivers_seq s) (map d_id (drivers s)) \<and>
         s1 = s\<lparr>drivers := drivers s @ [\<lparr>d_id = j, d_full_name = name, d_columns = cols\<rparr>],
                 drivers_seq := j\<rparr>"
  using assms unfolding insert_driver_def Let_def
  by (auto split: if_splits)

lemma insert_ticket_Some:
  assumes "insert_ticket err now number slot veh drv cashier s = Some (j, s1)"
  shows "j = next_id (parking_tickets_seq s) (map pt_id (parking_tickets s)) \<and>
         s1 = s\<lparr>parking_tickets := parking_tickets s @
                   [\<lparr>pt_id = j, pt_ticket_number = number, pt_slot_id = slot, pt_vehicle_id = veh,
                     pt_driver_id = drv, pt_cashier_id = cashier, pt_check_in_time = current_timestamp now,
                     pt_check_out_time = None, pt_duration_hours = None, pt_total_amount = None,
                     pt_payment_status = pending\<rparr>],
                 parking_tickets_seq := j\<rparr>"
  using assms unfolding insert_ticket_def Let_def
  by (auto split: if_splits)

lemma checkIn_success:
  assumes "checkIn f now user body s = (Vehicle_checked_in_successfully tid, s')"
  shows "\<exists>sid vid did.
           slot_id body = Some sid \<and>
           map_option ps_status (get_slot s sid) = Some vacant \<and>
           vid = next_id (vehicles_seq s) (map v_id (vehicles s)) \<and>
           did = next_id (drivers_seq s) (map d_id (drivers s)) \<and>
           tid = next_id (parking_tickets_seq s) (map pt_id (parking_tickets s)) \<and>
           vehicles s' = filter (\<lambda>v. v_license_plate v \<noteq> license_plate body) (vehicles s) @
                           [\<lparr>v_id = vid, v_license_plate = license_plate body,
                             v_columns = vehicle_columns body\<rparr>] \<and>
           drivers s' = drivers s @
                          [\<lparr>d_id = did, d_full_name = driver_name body, d_columns = driver_columns body\<rparr>] \<and>
           parking_tickets s' = parking_tickets s @
                   [\<lparr>pt_id = tid, pt_ticket_number = now, pt_slot_id = sid, pt_vehicle_id = vid,
                     pt_driver_id = did, pt_cashier_id = user, pt_check_in_time = current_timestamp now,
                     pt_check_out_time = None, pt_duration_hours = None, pt_total_amount = None,
                     pt_payment_status = pending\<rparr>] \<and>
           parking_slots s' =
             (if ci_slot_update_err f then parking_slots s
              else map (\<lambda>x. if ps_id x = sid then x\<lparr>ps_status := occupied\<rparr> else x) (parking_slots s)) \<and>
           payments s' = payments s \<and> users s' = users s \<and> shifts s' = shifts s \<and>
           foreign_keys s' = foreign_keys s \<and>
           \<not> (foreign_keys s \<and>
              list_ex (\<lambda>t. pt_vehicle_id t \<in>
                        set (map v_id (filter (\<lambda>v. v_license_plate v = license_plate body) (vehicles s))))
                (parking_tickets s))"
proof -
  from assms obtain sid where sid: "slot_id body = Some sid"
    by (cases "slot_id body") (auto simp: checkIn_def)
  from assms sid obtain sl where sl: "get_slot s sid = Some sl" "ps_status sl = vacant"
    by (cases "get_slot s sid") (auto simp: checkIn_def split: if_splits)
  from assms sid sl obtain vid s1 where
    v: "insert_or_replace_vehicle (ci_vehicle_insert_err f) (license_plate body) (vehicle_columns body) s
          = Some (vid, s1)"
    by (cases "insert_or_replace_vehicle (ci_vehicle_insert_err f) (license_plate body)
                 (vehicle_columns body) s")
       (auto simp: checkIn_def split: if_splits)
  from assms sid sl v obtain did s2 where
    d: "insert_driver (ci_driver_insert_err f) (driver_name body) (driver_columns body) s1 = Some (did, s2)"
    by (cases "insert_driver (ci_driver_insert_err f) (driver_name body) (driver_columns body) s1")
       (auto simp: checkIn_def split: if_splits)
  from assms sid sl v d obtain tid' s3 where
    t: "insert_ticket (ci_ticket_insert_err f) now now sid vid did user s2 = Some (tid', s3)"
    by (cases "insert_ticket (ci_ticket_insert_err f) now now sid vid did user s2")
       (auto simp: checkIn_def split: if_splits)
  from assms sid sl v d t have tid: "tid' = tid"
    and s': "s' = (case update_slot_status (ci_slot_update_err f) sid occupied s3 of
                     None \<Rightarrow> s3 | Some s4 \<Rightarrow> s4)"
    by (auto simp: checkIn_def split: if_splits option.splits)
  note V = insert_or_replace_vehicle_Some[OF v]
  note D = insert_driver_Some[OF d]
  note T = insert_ticket_Some[OF t]
  show ?thesis
    apply (rule exI[of _ sid], rule exI[of _ vid], rule exI[of _ did])
    using sid sl V D T tid s'
    by (auto simp: update_slot_status_def)
qed


lemma find_distinct_key:
  assumes "distinct (map key xs)" and "x \<in> set xs"
  shows "find (\<lambda>y. key y = key x) (xs @ ys) = Some x"
  using assms by (induction xs) (auto simp: image_iff)

lemma find_key_None:
  assumes "\<And>y. y \<in> set xs \<Longrightarrow> key y \<noteq> k"
  shows "find (\<lambda>y. key y = k) xs = None"
  using assms by (simp add: find_None_iff)

text \<open>
  What the vehicle statement does for a license plate that already has a vehicle row
  \<open>old\<close>, in a check-in with its required fields for a vacant slot. With foreign keys on
  and a ticket that references \<open>old\<close> it is rejected: the check-in answers "Failed to
  register vehicle" and changes nothing. Whenever the check-in succeeds, the rows of that
  plate are replaced by one row with an id above every earlier id, the new ticket
  references the new id, the earlier tickets are unchanged and a driver row is appended;
  with unique row ids no vehicle row has the old id any more, and an earlier ticket that
  referenced it is no longer returned by the ticket view and the receipt query.
\<close>

lemma checkIn_known_plate:
  assumes "slot_id body = Some sid"
      and "license_plate body \<noteq> []"
      and "driver_name body \<noteq> []"
      and "map_option ps_status (get_slot s sid) = Some vacant"
      and "\<not> ci_slot_get_err f"
      and "\<not> ci_vehicle_insert_err f"
      and "old \<in> set (vehicles s)"
      and "v_license_plate old = license_plate body"
  shows "(foreign_keys s \<and> list_ex (\<lambda>t. pt_vehicle_id t = v_id old) (parking_tickets s) \<longrightarrow>
            checkIn f now user body s = (Failed_to_register_vehicle, s)) \<and>
         (\<forall>tid s'. checkIn f now user body s = (Vehicle_checked_in_successfully tid, s') \<longrightarrow>
            (\<exists>new row d.
               vehicles s' = filter (\<lambda>v. v_license_plate v \<noteq> license_plate body) (vehicles s) @
                               [\<lparr>v_id = new, v_license_plate = license_plate body,
                                 v_columns = vehicle_columns body\<rparr>] \<and>
               (\<forall>v\<in>set (vehicles s). v_id v < new) \<and>
               parking_tickets s' = parking_tickets s @ [row] \<and>
               pt_id row = tid \<and> pt_vehicle_id row = new \<and>
               drivers s' = drivers s @ [d] \<and>
               (distinct (map v_id (vehicles s)) \<longrightarrow> get_vehicle s' (v_id old) = None) \<and>
               (distinct (map v_id (vehicles s)) \<and> distinct (map pt_id (parking_tickets s)) \<longrightarrow>
                  (\<forall>t\<in>set (parking_tickets s). pt_vehicle_id t = v_id old \<longrightarrow>
                     get_ticket s' (pt_id t) = Some t \<and>
                     view_ticket later zone (pt_id t) s' = None \<and>
                     receipt_join s' (pt_id t) = None))))"
proof (intro conjI impI allI)
  assume fk: "foreign_keys s \<and> list_ex (\<lambda>t. pt_vehicle_id t = v_id old) (parking_tickets s)"
  then obtain t where t: "t \<in> set (parking_tickets s)" "pt_vehicle_id t = v_id old"
    by (auto simp: list_ex_iff)
  have "list_ex (\<lambda>t. pt_vehicle_id t \<in>
                  set (map v_id (filter (\<lambda>v. v_license_plate v = license_plate body) (vehicles s))))
          (parking_tickets s)"
    unfolding list_ex_iff using t assms(7,8) by auto
  with fk have "insert_or_replace_vehicle (ci_vehicle_insert_err f) (license_plate body)
                  (vehicle_columns body) s = None"
    by (simp add: insert_or_replace_vehicle_def Let_def)
  with assms show "checkIn f now user body s = (Failed_to_register_vehicle, s)"
    by (auto simp: checkIn_def split: option.splits)
next
  fix tid s'
  assume c: "checkIn f now user body s = (Vehicle_checked_in_successfully tid, s')"
  let ?new = "next_id (vehicles_seq s) (map v_id (vehicles s))"
  from checkIn_success[OF c] obtain row d where
    vs: "vehicles s' = filter (\<lambda>v. v_license_plate v \<noteq> license_plate body) (vehicles s) @
                         [\<lparr>v_id = ?new, v_license_plate = license_plate body,
                           v_columns = vehicle_columns body\<rparr>]"
    and ts: "parking_tickets s' = parking_tickets s @ [row]" "pt_id row = tid" "pt_vehicle_id row = ?new"
    and ds: "drivers s' = drivers s @ [d]"
    by auto
  have lt: "\<forall>v\<in>set (vehicles s). v_id v < ?new"
    by (auto intro: next_id_gt)
  have gone: "get_vehicle s' (v_id old) = None" if dv: "distinct (map v_id (vehicles s))"
    unfolding get_vehicle_def
  proof (rule find_key_None)
    fix y assume y: "y \<in> set (vehicles s')"
    show "v_id y \<noteq> v_id old"
    proof (cases "y \<in> set (vehicles s)")
      case True
      with y vs lt assms(7) have "v_license_plate y \<noteq> license_plate body" by auto
      with assms(8) have "y \<noteq> old" by auto
      with dv True assms(7) show ?thesis
        by (auto simp: distinct_map inj_on_def)
    next
      case False
      with y vs have "v_id y = ?new" by auto
      with lt assms(7) show ?thesis by auto
    qed
  qed
  have earlier: "get_ticket s' (pt_id t) = Some t \<and> view_ticket later zone (pt_id t) s' = None \<and>
          receipt_join s' (pt_id t) = None"
    if dv: "distinct (map v_id (vehicles s))" and dt: "distinct (map pt_id (parking_tickets s))"
      and t: "t \<in> set (parking_tickets s)" "pt_vehicle_id t = v_id old" for t
  proof -
    have g: "get_ticket s' (pt_id t) = Some t"
      unfolding get_ticket_def ts by (rule find_distinct_key[OF dt t(1)])
    moreover have "ticket_join_all s' (pt_id t) = None"
      using g gone[OF dv] t(2) by (simp add: ticket_join_all_def split: option.splits)
    ultimately show ?thesis
      by (simp add: view_ticket_def receipt_join_def)
  qed
  show "\<exists>new row d.
               vehicles s' = filter (\<lambda>v. v_license_plate v \<noteq> license_plate body) (vehicles s) @
                               [\<lparr>v_id = new, v_license_plate = license_plate body,
                                 v_columns = vehicle_columns body\<rparr>] \<and>
               (\<forall>v\<in>set (vehicles s). v_id v < new) \<and>
               parking_tickets s' = parking_tickets s @ [row] \<and>
               pt_id row = tid \<and> pt_vehicle_id row = new \<and>
               drivers s' = drivers s @ [d] \<and>
               (distinct (map v_id (vehicles s)) \<longrightarrow> get_vehicle s' (v_id old) = None) \<and>
               (distinct (map v_id (vehicles s)) \<and> distinct (map pt_id (parking_tickets s)) \<longrightarrow>
                  (\<forall>t\<in>set (parking_tickets s). pt_vehicle_id t = v_id old \<longrightarrow>
                     get_ticket s' (pt_id t) = Some t \<and>
                     view_ticket later zone (pt_id t) s' = None \<and>
                     receipt_join s' (pt_id t) = None))"
    apply (rule exI[of _ ?new], rule exI[of _ row], rule exI[of _ d])
    using vs ts ds lt gone earlier by blast
qed


text \<open>
  Claim C10: a check-in for a license plate that already has a vehicle row replaces the
  row by a fresh one and goes on to create the ticket. The handler issues \<open>INSERT OR
  REPLACE\<close> under the comment "Insert or update vehicle", but with foreign keys on, as
  \<open>initDatabase\<close> sets them, the statement is rejected once a ticket references the row.
  In \<open>settled\<close> ticket 1 references vehicle 1 of plate ABC and slots 1 and 2 are vacant:
  a check-in of plate ABC, into slot 1 or into slot 2, answers "Failed to register
  vehicle" and leaves the store as it was, with the old vehicle row and no new ticket.
\<close>

theorem checkIn_known_plate_is_rejected:
  "foreign_keys settled \<and>
   map_option v_license_plate (get_vehicle settled 1) = Some ''ABC'' \<and>
   map_option pt_vehicle_id (get_ticket settled 1) = Some 1 \<and>
   map_option ps_status (get_slot settled 1) = Some vacant \<and>
   map_option ps_status (get_slot settled 2) = Some vacant \<and>
   checkIn no_checkin_faults 7200000 2 example_checkin settled = (Failed_to_register_vehicle, settled) \<and>
   checkIn no_checkin_faults 7200000 2 (example_checkin\<lparr>slot_id := Some 2\<rparr>) settled =
     (Failed_to_register_vehicle, settled) \<and>
   map_option v_id (get_vehicle settled 1) = Some 1 \<and>
   length (parking_tickets settled) = 1"
  by code_simp

section \<open>Occupancy is kept by requests that complete\<close>

















lemma consistent_initDatabase: "consistent initDatabase"
  by code_simp




section \<open>Billing at check-out\<close>























text \<open>
  The stored check-in time is UTC and is read back as a local time. On a server two hours
  east of UTC the check-out at the very instant of the check-in is billed two hours.
\<close>

lemma checkOut_reads_stored_time_as_local:
  "map_option pt_check_in_time (get_ticket (parked_at 7000) 1) = Some 7000 \<and>
   fst (checkOut no_checkout_faults 7000 7200000 2 1 cash_body (parked_at 7000)) =
     Vehicle_checked_out_successfully \<and>
   map_option pt_total_amount
     (get_ticket (snd (checkOut no_checkout_faults 7000 7200000 2 1 cash_body (parked_at 7000))) 1) =
     Some (Some 10)"
  by code_simp

end
